theory Spec2Isabelle
  imports
    Main
    "HOL-Library.Sublist"
    "HOL-Library.Char_ord"
    "HOL-Library.List_Lexorder"
    "HOL-Library.Product_Lexorder"
    "HOL-Library.Word"
begin

unbundle bit_operations_syntax

section \<open>Python strings\<close>

text \<open>
  A Python \<open>str\<close> is modelled as \<open>string\<close>, read as the UTF-8 bytes of the text.
  Substring search, \<open>endswith\<close>, \<open>replace\<close> and the ordering of \<open>sorted\<close> give the
  same answers on UTF-8 bytes as on code points.
\<close>

abbreviation NL :: char where "NL \<equiv> CHR 0x0A"
abbreviation TAB :: char where "TAB \<equiv> CHR 0x09"
abbreviation DQ :: char where "DQ \<equiv> CHR 0x22"

text \<open>\<open>s.endswith(suf)\<close>\<close>

definition endswith :: "string \<Rightarrow> string \<Rightarrow> bool" where
  "endswith s suf = (length suf \<le> length s \<and> drop (length s - length suf) s = suf)"

text \<open>\<open>s.startswith(pat)\<close>, comparing character by character from the left.\<close>

fun startswith :: "string \<Rightarrow> string \<Rightarrow> bool" where
  "startswith s [] = True"
| "startswith [] (p # ps) = False"
| "startswith (c # cs) (p # ps) = (if c = p then startswith cs ps else False)"

text \<open>
  \<open>s.partition(pat)\<close> restricted to the case where \<open>pat\<close> occurs: the text before the
  first occurrence of \<open>pat\<close> and the text after it, \<open>None\<close> when \<open>pat\<close> does not occur.
\<close>

fun split_first :: "string \<Rightarrow> string \<Rightarrow> (string \<times> string) option" where
  "split_first pat [] = (if pat = [] then Some ([], []) else None)"
| "split_first pat (c # cs) =
     (if startswith (c # cs) pat then Some ([], drop (length pat) (c # cs))
      else map_option (\<lambda>(a, b). (c # a, b)) (split_first pat cs))"

text \<open>\<open>pat in s\<close>\<close>

definition str_in :: "string \<Rightarrow> string \<Rightarrow> bool" where
  "str_in pat s = (split_first pat s \<noteq> None)"

text \<open>
  \<open>s.replace(old, new)\<close>, called without a count: every non-overlapping occurrence of
  \<open>old\<close> is replaced, scanning from the left. For an empty \<open>old\<close> Python inserts \<open>new\<close>
  before every character and at the end.
\<close>

function repl :: "string \<Rightarrow> string \<Rightarrow> string \<Rightarrow> string" where
  "repl old new [] = []"
| "repl old new (c # cs) =
     (if old \<noteq> [] \<and> startswith (c # cs) old
      then new @ repl old new (drop (length old) (c # cs))
      else c # repl old new cs)"
  by pat_completeness auto
termination
  by (relation "measure (\<lambda>(old, new, s). length s)") (auto simp: Suc_le_eq)

definition replace :: "string \<Rightarrow> string \<Rightarrow> string \<Rightarrow> string" where
  "replace old new s =
     (if old = [] then new @ concat (map (\<lambda>c. c # new) s) else repl old new s)"

text \<open>\<open>sep.join(xs)\<close>\<close>

fun join :: "string \<Rightarrow> string list \<Rightarrow> string" where
  "join sep [] = []"
| "join sep [x] = x"
| "join sep (x # y # ys) = x @ sep @ join sep (y # ys)"

text \<open>\<open>os.path.basename(p)\<close>: what follows the last slash.\<close>

fun basename :: "string \<Rightarrow> string" where
  "basename [] = []"
| "basename (c # cs) = (if CHR ''/'' \<in> set (c # cs) then basename cs else c # cs)"

text \<open>
  \<open>os.path.join(root, name)\<close> for a root that does not end in a slash and a name that
  is an entry of a directory, and \<open>os.path.relpath(p, directory)\<close> for a path \<open>p\<close> that
  was joined below \<open>directory\<close>.
\<close>

definition path_join :: "string \<Rightarrow> string \<Rightarrow> string" where
  "path_join root name = root @ ''/'' @ name"

definition relpath :: "string \<Rightarrow> string \<Rightarrow> string" where
  "relpath p directory = drop (Suc (length directory)) p"

section \<open>Regular expressions of the script\<close>

text \<open>
  \<open>re.search(r'(A.*?)(B)', s, re.DOTALL)\<close> for literal texts \<open>A\<close> and \<open>B\<close>. The search
  takes the leftmost start; an occurrence of \<open>A\<close> that is followed somewhere by \<open>B\<close>
  exists exactly when the first occurrence of \<open>A\<close> is followed by \<open>B\<close>, and the lazy
  \<open>.*?\<close> stops at the first \<open>B\<close> after it. The result is \<open>group(1)\<close>.
\<close>

definition re_search_section :: "string \<Rightarrow> string \<Rightarrow> string \<Rightarrow> string option" where
  "re_search_section A B s =
     (case split_first A s of
        None \<Rightarrow> None
      | Some (before, rest) \<Rightarrow>
          (case split_first B rest of
             None \<Rightarrow> None
           | Some (body, after) \<Rightarrow> Some (A @ body)))"

text \<open>
  \<open>re.search(r'(H.*?O)(.*?)(C)', s, re.DOTALL)\<close> for literal texts \<open>H\<close>, \<open>O\<close> and \<open>C\<close>:
  the first \<open>H\<close>, the first \<open>O\<close> after it, the first \<open>C\<close> after that. The result is
  \<open>group(2)\<close>.
\<close>

definition re_search_list :: "string \<Rightarrow> string \<Rightarrow> string \<Rightarrow> string \<Rightarrow> string option" where
  "re_search_list H O' C s =
     (case split_first H s of
        None \<Rightarrow> None
      | Some (before, r1) \<Rightarrow>
          (case split_first O' r1 of
             None \<Rightarrow> None
           | Some (head, r2) \<Rightarrow>
               (case split_first C r2 of
                  None \<Rightarrow> None
                | Some (items, after) \<Rightarrow> Some items)))"

text \<open>\<open>re.search(r'([A-F0-9]{24})', s)\<close>: the leftmost run of 24 such characters.\<close>

definition is_HEX :: "char \<Rightarrow> bool" where
  "is_HEX c = ((CHR ''A'' \<le> c \<and> c \<le> CHR ''F'') \<or> (CHR ''0'' \<le> c \<and> c \<le> CHR ''9''))"

fun re_search_hex24 :: "string \<Rightarrow> string option" where
  "re_search_hex24 [] = None"
| "re_search_hex24 (c # cs) =
     (if 24 \<le> length (c # cs) \<and> list_all is_HEX (take 24 (c # cs))
      then Some (take 24 (c # cs))
      else re_search_hex24 cs)"

section \<open>Identifiers\<close>

text \<open>
  \<open>uuid.uuid4()\<close> is a 128-bit number; \<open>.hex\<close> prints it as 32 lowercase hexadecimal
  digits, of which \<open>generate_uuid\<close> keeps the first 24, in upper case.
\<close>

definition hex_digit :: "nat \<Rightarrow> char" where
  "hex_digit n = ''0123456789abcdef'' ! n"

definition hex :: "128 word \<Rightarrow> string" where
  "hex u = map (\<lambda>i. hex_digit (unat (drop_bit (4 * i) u AND 15))) (rev [0..<32])"

definition upper :: "string \<Rightarrow> string" where
  "upper s = map (\<lambda>c. if CHR ''a'' \<le> c \<and> c \<le> CHR ''z''
                       then char_of (of_char c - (32::nat)) else c) s"

definition generate_uuid :: "128 word \<Rightarrow> string" where
  "generate_uuid u = upper (take 24 (hex u))"

section \<open>Discovery\<close>

text \<open>
  A directory tree. \<open>Dir\<close> lists its entries in the order \<open>os.scandir\<close> gives them;
  \<open>Unreadable\<close> is a directory whose listing fails.
\<close>

datatype node = File | Dir "(string \<times> node) list" | Unreadable

fun is_dir :: "node \<Rightarrow> bool" where
  "is_dir File = False"
| "is_dir (Dir es) = True"
| "is_dir Unreadable = True"

text \<open>
  \<open>os.walk(top)\<close>, top-down, with the default \<open>onerror=None\<close>: a \<open>top\<close> that cannot be
  listed yields nothing and raises nothing.
\<close>

fun walk :: "string \<Rightarrow> node \<Rightarrow> (string \<times> string list \<times> string list) list"
  and walk_entries :: "string \<Rightarrow> (string \<times> node) list \<Rightarrow> (string \<times> string list \<times> string list) list"
where
  "walk dir File = []"
| "walk dir Unreadable = []"
| "walk dir (Dir es) =
     (dir, map fst (filter (\<lambda>e. is_dir (snd e)) es),
           map fst (filter (\<lambda>e. \<not> is_dir (snd e)) es)) # walk_entries dir es"
| "walk_entries dir [] = []"
| "walk_entries dir (e # es) = walk (path_join dir (fst e)) (snd e) @ walk_entries dir es"

text \<open>The tree below a path is \<open>None\<close> when the path does not exist.\<close>

definition os_walk :: "string \<Rightarrow> node option \<Rightarrow> (string \<times> string list \<times> string list) list" where
  "os_walk dir t = (case t of None \<Rightarrow> [] | Some n \<Rightarrow> walk dir n)"

definition find_all_swift_files :: "string \<Rightarrow> node option \<Rightarrow> string list" where
  "find_all_swift_files directory t =
     sort (concat (map (\<lambda>(root, dirs, files).
        map (\<lambda>file. relpath (path_join root file) directory)
            (filter (\<lambda>file. endswith file ''.swift'') files))
        (os_walk directory t)))"

definition extensions :: "string list" where
  "extensions = [''.lproj'', ''.strings'', ''.js'', ''.py'', ''.json'', ''.icns'']"

definition find_all_resource_files :: "string \<Rightarrow> node option \<Rightarrow> (string \<times> string) list" where
  "find_all_resource_files directory t =
     sort (concat (map (\<lambda>(root, dirs, files).
        if endswith root ''.lproj'' then [(relpath root directory, ''folder'')]
        else map (\<lambda>file. (relpath (path_join root file) directory, ''file''))
                 (filter (\<lambda>file. list_ex (\<lambda>ext. endswith file ext) extensions) files))
        (os_walk directory t)))"

section \<open>Record synthesis\<close>

text \<open>
  The three f-string templates of \<open>add_files_to_project\<close>, as functions of their holes:
  a \<open>PBXFileReference\<close> line, a \<open>PBXBuildFile\<close> line, and an entry of a membership list.
\<close>

definition file_reference_line :: "string \<Rightarrow> string \<Rightarrow> string \<Rightarrow> string" where
  "file_reference_line file_uuid file_name path =
     [TAB, TAB] @ file_uuid @ '' /* '' @ file_name
       @ '' */ = {isa = PBXFileReference; lastKnownFileType = sourcecode.swift; name = ''
       @ file_name @ ''; path = '' @ path @ ''; sourceTree = '' @ [DQ] @ ''<group>'' @ [DQ]
       @ ''; };''"

definition build_file_line :: "string \<Rightarrow> string \<Rightarrow> string \<Rightarrow> string" where
  "build_file_line build_uuid file_name file_uuid =
     [TAB, TAB] @ build_uuid @ '' /* '' @ file_name
       @ '' in Sources */ = {isa = PBXBuildFile; fileRef = '' @ file_uuid @ '' /* ''
       @ file_name @ '' */; };''"

definition entry_line :: "string \<Rightarrow> string \<Rightarrow> string" where
  "entry_line uuid label = [TAB, TAB, TAB, TAB] @ uuid @ '' /* '' @ label @ '' */,''"

definition list_entry :: "string \<Rightarrow> string \<Rightarrow> string" where
  "list_entry uuid label = NL # entry_line uuid label"

text \<open>
  The loop over \<open>swift_files\<close>: the file with index \<open>i\<close> draws the identifiers number
  \<open>k + 2 * i\<close> and \<open>k + 2 * i + 1\<close> of the run. Each step gives the line appended to
  \<open>file_references\<close> and the line appended to \<open>build_file_refs\<close>.
\<close>

fun swift_records :: "(nat \<Rightarrow> 128 word) \<Rightarrow> nat \<Rightarrow> string list \<Rightarrow> (string \<times> string) list" where
  "swift_records uuid4 k [] = []"
| "swift_records uuid4 k (swift_file # rest) =
     (let file_name = basename swift_file;
          file_uuid = generate_uuid (uuid4 k);
          build_uuid = generate_uuid (uuid4 (Suc k))
      in (file_reference_line file_uuid file_name (''sources/AIPlugins/'' @ swift_file),
          build_file_line build_uuid file_name file_uuid)
         # swift_records uuid4 (Suc (Suc k)) rest)"

definition wm_uuid :: "(nat \<Rightarrow> 128 word) \<Rightarrow> string" where
  "wm_uuid uuid4 = generate_uuid (uuid4 0)"

definition wm_build_uuid :: "(nat \<Rightarrow> 128 word) \<Rightarrow> string" where
  "wm_build_uuid uuid4 = generate_uuid (uuid4 1)"

definition file_references :: "(nat \<Rightarrow> 128 word) \<Rightarrow> string list \<Rightarrow> string list" where
  "file_references uuid4 swift_files =
     file_reference_line (wm_uuid uuid4) ''AIPluginWindowManager.swift''
        ''sources/AIPluginWindowManager.swift''
     # map fst (swift_records uuid4 2 swift_files)"

definition build_file_refs :: "(nat \<Rightarrow> 128 word) \<Rightarrow> string list \<Rightarrow> string list" where
  "build_file_refs uuid4 swift_files =
     build_file_line (wm_build_uuid uuid4) ''AIPluginWindowManager.swift'' (wm_uuid uuid4)
     # map snd (swift_records uuid4 2 swift_files)"

text \<open>
  The inner loop of the phase patch: the first line of \<open>build_file_refs\<close> that contains
  the file name and \<open>' in Sources '\<close> decides, and the loop breaks there.
\<close>

fun lookup_build_ref :: "string \<Rightarrow> string list \<Rightarrow> string list" where
  "lookup_build_ref file_name [] = []"
| "lookup_build_ref file_name (ref # refs) =
     (if str_in file_name ref \<and> str_in '' in Sources '' ref
      then (case re_search_hex24 ref of
              Some u \<Rightarrow> [list_entry u (file_name @ '' in Sources'')]
            | None \<Rightarrow> [])
      else lookup_build_ref file_name refs)"

definition new_files_list :: "(nat \<Rightarrow> 128 word) \<Rightarrow> string list \<Rightarrow> string list" where
  "new_files_list uuid4 swift_files =
     list_entry (wm_build_uuid uuid4) ''AIPluginWindowManager.swift in Sources''
     # concat (map (\<lambda>swift_file.
          lookup_build_ref (basename swift_file) (build_file_refs uuid4 swift_files))
        swift_files)"

section \<open>Section patching\<close>

text \<open>
  What the script prints, one constructor for each \<open>print\<close> call of
  \<open>add_files_to_project\<close> and of the handler at the bottom of the file, in the order of
  the source (lines 61, 69, 71, 73, 75, 107, 115, 123, 133, 153, 156, 158, 160, 161, 162,
  163, 169, 171). The script has no other output.
\<close>

datatype failure = ReadFailed | WriteFailed

datatype message =
    ReadingProject
  | ScanningSources
  | FoundSwiftFiles nat
  | ScanningResources
  | FoundResources nat
  | ModifyingProject
  | AddedFileReferences
  | AddedBuildReferences
  | AddedToSourcesGroup
  | AddedToBuildPhase
  | SavingProject
  | ProjectUpdated
  | Finished
  | StatisticsHeader
  | SourcesAdded nat
  | ResourcesAdded nat
  | ErrorLine failure
  | Traceback failure

text \<open>Each patch step returns the new content and what it printed.\<close>

text \<open>The literal texts of the four regular expressions.\<close>

definition begin_file_references :: string where
  "begin_file_references = ''/* Begin PBXFileReference section */''"

definition end_file_references :: string where
  "end_file_references = ''/* End PBXFileReference section */''"

definition begin_build_files :: string where
  "begin_build_files = ''/* Begin PBXBuildFile section */''"

definition end_build_files :: string where
  "end_build_files = ''/* End PBXBuildFile section */''"

definition sources_group :: string where
  "sources_group = ''080E96DDFE201D6D7F000001 /* Sources */ = {''"

definition children_open :: string where
  "children_open = ''children = (''"

definition sources_phase :: string where
  "sources_phase = ''8D11072C0486CEB800E47090 /* Sources */ = {''"

definition files_open :: string where
  "files_open = ''files = (''"

definition list_close :: string where
  "list_close = '');''"

definition search_file_references :: "string \<Rightarrow> string option" where
  "search_file_references content =
     re_search_section begin_file_references (NL # end_file_references) content"

definition search_build_files :: "string \<Rightarrow> string option" where
  "search_build_files content =
     re_search_section begin_build_files (NL # end_build_files) content"

definition search_sources_group :: "string \<Rightarrow> string option" where
  "search_sources_group content =
     re_search_list sources_group children_open list_close content"

definition search_sources_phase :: "string \<Rightarrow> string option" where
  "search_sources_phase content =
     re_search_list sources_phase files_open list_close content"

definition patch_file_references :: "string list \<Rightarrow> string \<Rightarrow> string \<times> message list" where
  "patch_file_references refs content =
     (case search_file_references content of
        None \<Rightarrow> (content, [])
      | Some ref_content \<Rightarrow>
          (replace ref_content (ref_content @ [NL] @ join [NL] refs @ [NL]) content,
           [AddedFileReferences]))"

definition patch_build_files :: "string list \<Rightarrow> string \<Rightarrow> string \<times> message list" where
  "patch_build_files refs content =
     (case search_build_files content of
        None \<Rightarrow> (content, [])
      | Some build_content \<Rightarrow>
          (replace build_content (build_content @ [NL] @ join [NL] refs @ [NL]) content,
           [AddedBuildReferences]))"

definition patch_sources_group :: "string \<Rightarrow> string \<Rightarrow> string \<times> message list" where
  "patch_sources_group wm content =
     (case search_sources_group content of
        None \<Rightarrow> (content, [])
      | Some children \<Rightarrow>
          (replace children (children @ list_entry wm ''AIPluginWindowManager.swift'') content,
           [AddedToSourcesGroup]))"

definition patch_sources_phase :: "string list \<Rightarrow> string \<Rightarrow> string \<times> message list" where
  "patch_sources_phase entries content =
     (case search_sources_phase content of
        None \<Rightarrow> (content, [])
      | Some files \<Rightarrow>
          (replace files (files @ concat entries) content, [AddedToBuildPhase]))"

section \<open>The run\<close>

text \<open>
  What a run reads from outside: the text of \<open>project.pbxproj\<close> (\<open>None\<close> when
  \<open>read_pbxproj\<close> raises), the trees below \<open>sources/AIPlugins\<close> and
  \<open>Resources/AIPlugins\<close> (\<open>None\<close> when the directory does not exist), the results of
  the successive calls of \<open>uuid.uuid4()\<close>, and whether \<open>write_pbxproj\<close> succeeds.
\<close>

record world =
  pbxproj :: "string option"
  aiplugins_tree :: "node option"
  resources_tree :: "node option"
  uuid4 :: "nat \<Rightarrow> 128 word"
  writable :: bool

text \<open>
  What a run leaves: the lines printed, the content \<open>write_pbxproj\<close> stored (\<open>None\<close>
  when it was not called or raised), and the exception that escaped, if any.
\<close>

record run =
  console :: "message list"
  written :: "string option"
  raised :: "failure option"

definition project_root :: string where
  "project_root = ''/Users/xcl/rime/squirrel_llm''"

definition aiplugins_dir :: string where
  "aiplugins_dir = project_root @ ''/sources/AIPlugins''"

definition resources_dir :: string where
  "resources_dir = project_root @ ''/Resources/AIPlugins''"

text \<open>The steps 2 and 3 of \<open>add_files_to_project\<close>: synthesis and the four patches.\<close>

definition patch_all :: "(nat \<Rightarrow> 128 word) \<Rightarrow> string list \<Rightarrow> string \<Rightarrow> string \<times> message list" where
  "patch_all u swift_files content =
     (let (c1, m1) = patch_file_references (file_references u swift_files) content;
          (c2, m2) = patch_build_files (build_file_refs u swift_files) c1;
          (c3, m3) = patch_sources_group (wm_uuid u) c2;
          (c4, m4) = patch_sources_phase (new_files_list u swift_files) c3
      in (c4, m1 @ m2 @ m3 @ m4))"

definition add_files_to_project :: "world \<Rightarrow> run" where
  "add_files_to_project w =
     (case pbxproj w of
        None \<Rightarrow> \<lparr>console = [ReadingProject], written = None, raised = Some ReadFailed\<rparr>
      | Some content \<Rightarrow>
          (let swift_files = find_all_swift_files aiplugins_dir (aiplugins_tree w);
               resource_files = find_all_resource_files resources_dir (resources_tree w);
               (content', patched) = patch_all (uuid4 w) swift_files content;
               log = [ReadingProject, ScanningSources, FoundSwiftFiles (length swift_files),
                      ScanningResources, FoundResources (length resource_files),
                      ModifyingProject] @ patched @ [SavingProject]
           in if writable w
              then \<lparr>console = log @ [ProjectUpdated, Finished, StatisticsHeader,
                                     SourcesAdded (length swift_files + 1),
                                     ResourcesAdded (length resource_files)],
                    written = Some content', raised = None\<rparr>
              else \<lparr>console = log, written = None, raised = Some WriteFailed\<rparr>))"

text \<open>
  The \<open>__main__\<close> block: \<open>except Exception\<close> prints the error and the traceback and
  falls off the end of the script, so the interpreter exits with status 0 on both paths.
\<close>

record outcome =
  printed :: "message list"
  stored :: "string option"
  exit_status :: nat

definition main :: "world \<Rightarrow> outcome" where
  "main w =
     (let r = add_files_to_project w
      in case raised r of
           None \<Rightarrow> \<lparr>printed = console r, stored = written r, exit_status = 0\<rparr>
         | Some e \<Rightarrow> \<lparr>printed = console r @ [ErrorLine e, Traceback e],
                      stored = written r, exit_status = 0\<rparr>)"

section \<open>Observations and sample inputs\<close>

text \<open>
  Replacing the two resource counts of a printed line; every other line is kept. Used
  to compare the output of two runs.
\<close>

fun with_resource_count :: "nat \<Rightarrow> message \<Rightarrow> message" where
  "with_resource_count n (FoundResources k) = FoundResources n"
| "with_resource_count n (ResourcesAdded k) = ResourcesAdded n"
| "with_resource_count n m = m"

text \<open>
  A descriptor laid out in the order in which the sections are written: the build-file
  section, the file-reference section, the Sources group and the Sources build phase.
  The fields are the texts between the literal anchors: the bodies of the two sections,
  the children of the group, the files of the phase, and what lies around them.
\<close>

record layout =
  preamble :: string
  build_files :: string
  gap1 :: string
  file_refs :: string
  gap2 :: string
  group_head :: string
  children :: string
  gap3 :: string
  phase_head :: string
  files :: string
  trailer :: string

definition after_children :: "layout \<Rightarrow> string" where
  "after_children L =
     gap3 L @ sources_phase @ phase_head L @ files_open @ files L @ list_close @ trailer L"

definition after_file_refs :: "layout \<Rightarrow> string" where
  "after_file_refs L =
     gap2 L @ sources_group @ group_head L @ children_open @ children L @ list_close
       @ after_children L"

definition after_build_files :: "layout \<Rightarrow> string" where
  "after_build_files L =
     gap1 L @ begin_file_references @ file_refs L @ NL # end_file_references
       @ after_file_refs L"

definition render :: "layout \<Rightarrow> string" where
  "render L =
     preamble L @ begin_build_files @ build_files L @ NL # end_build_files
       @ after_build_files L"

definition before_file_refs :: "layout \<Rightarrow> string" where
  "before_file_refs L =
     preamble L @ begin_build_files @ build_files L @ NL # end_build_files @ gap1 L"

definition before_group :: "layout \<Rightarrow> string" where
  "before_group L =
     before_file_refs L @ begin_file_references @ file_refs L @ NL # end_file_references
       @ gap2 L"

definition before_children :: "layout \<Rightarrow> string" where
  "before_children L = before_group L @ sources_group @ group_head L @ children_open"

definition before_phase :: "layout \<Rightarrow> string" where
  "before_phase L = before_children L @ children L @ list_close @ gap3 L"

definition before_files :: "layout \<Rightarrow> string" where
  "before_files L = before_phase L @ sources_phase @ phase_head L @ files_open"

text \<open>What each patch step appends, as a change of the layout.\<close>

definition section_addition :: "string list \<Rightarrow> string" where
  "section_addition ls = [NL] @ join [NL] ls @ [NL]"

definition add_file_refs :: "(nat \<Rightarrow> 128 word) \<Rightarrow> string list \<Rightarrow> layout \<Rightarrow> layout" where
  "add_file_refs u fs L =
     L\<lparr>file_refs := file_refs L @ section_addition (file_references u fs)\<rparr>"

definition add_build_files :: "(nat \<Rightarrow> 128 word) \<Rightarrow> string list \<Rightarrow> layout \<Rightarrow> layout" where
  "add_build_files u fs L =
     L\<lparr>build_files := build_files L @ section_addition (build_file_refs u fs)\<rparr>"

definition add_child :: "(nat \<Rightarrow> 128 word) \<Rightarrow> layout \<Rightarrow> layout" where
  "add_child u L =
     L\<lparr>children := children L @ list_entry (wm_uuid u) ''AIPluginWindowManager.swift''\<rparr>"

definition add_files :: "(nat \<Rightarrow> 128 word) \<Rightarrow> string list \<Rightarrow> layout \<Rightarrow> layout" where
  "add_files u fs L = L\<lparr>files := files L @ concat (new_files_list u fs)\<rparr>"

definition after_run :: "(nat \<Rightarrow> 128 word) \<Rightarrow> string list \<Rightarrow> layout \<Rightarrow> layout" where
  "after_run u fs L = add_files u fs (add_child u (add_build_files u fs (add_file_refs u fs L)))"

text \<open>
  A region is clear when its search finds it where the layout has it and the text that
  the step replaces occurs nowhere else: the opening anchor does not occur earlier, the
  closing anchor does not occur inside the region, and the replaced text does not occur
  before or after the region.
\<close>

definition clear_file_refs :: "layout \<Rightarrow> bool" where
  "clear_file_refs L \<longleftrightarrow>
     \<not> str_in begin_file_references (before_file_refs L @ butlast begin_file_references)
     \<and> \<not> str_in (NL # end_file_references) (file_refs L @ butlast (NL # end_file_references))
     \<and> \<not> str_in begin_file_references
           (file_refs L @ NL # end_file_references @ after_file_refs L)"

definition clear_build_files :: "layout \<Rightarrow> bool" where
  "clear_build_files L \<longleftrightarrow>
     \<not> str_in begin_build_files (preamble L @ butlast begin_build_files)
     \<and> \<not> str_in (NL # end_build_files) (build_files L @ butlast (NL # end_build_files))
     \<and> \<not> str_in begin_build_files
           (build_files L @ NL # end_build_files @ after_build_files L)"

definition clear_children :: "layout \<Rightarrow> bool" where
  "clear_children L \<longleftrightarrow>
     \<not> str_in sources_group (before_group L @ butlast sources_group)
     \<and> \<not> str_in children_open (group_head L @ butlast children_open)
     \<and> \<not> str_in list_close (children L @ butlast list_close)
     \<and> \<not> str_in (children L) (before_children L @ butlast (children L))
     \<and> \<not> str_in (children L) (list_close @ after_children L)"

definition clear_files :: "layout \<Rightarrow> bool" where
  "clear_files L \<longleftrightarrow>
     \<not> str_in sources_phase (before_phase L @ butlast sources_phase)
     \<and> \<not> str_in files_open (phase_head L @ butlast files_open)
     \<and> \<not> str_in list_close (files L @ butlast list_close)
     \<and> \<not> str_in (files L) (before_files L @ butlast (files L))
     \<and> \<not> str_in (files L) (list_close @ trailer L)"

text \<open>
  A layout is unambiguous for a run when each region is clear in the descriptor that
  its step sees, that is, after the steps before it.
\<close>

definition unambiguous :: "(nat \<Rightarrow> 128 word) \<Rightarrow> string list \<Rightarrow> layout \<Rightarrow> bool" where
  "unambiguous u fs L \<longleftrightarrow>
     clear_file_refs L
     \<and> clear_build_files (add_file_refs u fs L)
     \<and> clear_children (add_build_files u fs (add_file_refs u fs L))
     \<and> clear_files (add_child u (add_build_files u fs (add_file_refs u fs L)))"

text \<open>
  A stream of version-4 UUIDs that differ in one digit of the part \<open>generate_uuid\<close>
  keeps: the identifiers are \<open>000000000000400080000001\<close>, \<open>...2\<close>, and so on.
\<close>

definition sample_uuid4 :: "nat \<Rightarrow> 128 word" where
  "sample_uuid4 k = 0x00000000000040008000000000000000 + push_bit 32 (of_nat (Suc k))"

text \<open>The stream that follows the first six identifiers of \<open>sample_uuid4\<close>.\<close>

definition later_uuid4 :: "nat \<Rightarrow> 128 word" where
  "later_uuid4 k = sample_uuid4 (k + 6)"

text \<open>
  A descriptor with empty instances of the four regions. The two lists hold white
  space only, each a text that occurs once in the descriptor.
\<close>

definition utf8_header :: string where
  "utf8_header = ''// !$*UTF8*$!''"

definition group_isa :: string where
  "group_isa = ''isa = PBXGroup; ''"

definition phase_isa :: string where
  "phase_isa = ''isa = PBXSourcesBuildPhase; ''"

definition five_tabs :: string where
  "five_tabs = [TAB, TAB, TAB, TAB, TAB]"

definition four_spaces :: string where
  "four_spaces = ''    ''"

definition record_end :: string where
  "record_end = '' };''"

definition empty_layout :: layout where
  "empty_layout =
     \<lparr>preamble = utf8_header @ [NL], build_files = [], gap1 = [NL], file_refs = [],
      gap2 = [NL], group_head = group_isa, children = NL # five_tabs,
      gap3 = record_end @ [NL], phase_head = phase_isa, files = NL # four_spaces,
      trailer = record_end @ [NL]\<rparr>"

text \<open>The source directory of the scenario, and the lines a run with \<open>sample_uuid4\<close> makes.\<close>

definition two_files :: node where
  "two_files = Dir [(''B.swift'', File), (''A.swift'', File)]"

definition two_file_world :: world where
  "two_file_world =
     \<lparr>pbxproj = Some (render empty_layout), aiplugins_tree = Some two_files,
      resources_tree = Some (Dir []), uuid4 = sample_uuid4, writable = True\<rparr>"

definition ref1 :: string where
  "ref1 = file_reference_line ''000000000000400080000001'' ''AIPluginWindowManager.swift''
            ''sources/AIPluginWindowManager.swift''"

definition ref2 :: string where
  "ref2 = file_reference_line ''000000000000400080000003'' ''A.swift''
            ''sources/AIPlugins/A.swift''"

definition ref3 :: string where
  "ref3 = file_reference_line ''000000000000400080000005'' ''B.swift''
            ''sources/AIPlugins/B.swift''"

definition build1 :: string where
  "build1 = build_file_line ''000000000000400080000002'' ''AIPluginWindowManager.swift''
              ''000000000000400080000001''"

definition build2 :: string where
  "build2 = build_file_line ''000000000000400080000004'' ''A.swift''
              ''000000000000400080000003''"

definition build3 :: string where
  "build3 = build_file_line ''000000000000400080000006'' ''B.swift''
              ''000000000000400080000005''"

definition child1 :: string where
  "child1 = entry_line ''000000000000400080000001'' ''AIPluginWindowManager.swift''"

definition file1 :: string where
  "file1 = entry_line ''000000000000400080000002'' ''AIPluginWindowManager.swift in Sources''"

definition file2 :: string where
  "file2 = entry_line ''000000000000400080000004'' ''A.swift in Sources''"

definition file3 :: string where
  "file3 = entry_line ''000000000000400080000006'' ''B.swift in Sources''"

definition patched_layout :: layout where
  "patched_layout =
     \<lparr>preamble = utf8_header @ [NL],
      build_files = section_addition [build1, build2, build3],
      gap1 = [NL],
      file_refs = section_addition [ref1, ref2, ref3],
      gap2 = [NL], group_head = group_isa,
      children = NL # five_tabs @ NL # child1,
      gap3 = record_end @ [NL], phase_head = phase_isa,
      files = NL # four_spaces @ NL # file1 @ NL # file2 @ NL # file3,
      trailer = record_end @ [NL]\<rparr>"

text \<open>The lines a second run with \<open>later_uuid4\<close> makes.\<close>

definition ref4 :: string where
  "ref4 = file_reference_line ''000000000000400080000007'' ''AIPluginWindowManager.swift''
            ''sources/AIPluginWindowManager.swift''"

definition ref5 :: string where
  "ref5 = file_reference_line ''000000000000400080000009'' ''A.swift''
            ''sources/AIPlugins/A.swift''"

definition ref6 :: string where
  "ref6 = file_reference_line ''00000000000040008000000B'' ''B.swift''
            ''sources/AIPlugins/B.swift''"

definition build4 :: string where
  "build4 = build_file_line ''000000000000400080000008'' ''AIPluginWindowManager.swift''
              ''000000000000400080000007''"

definition build5 :: string where
  "build5 = build_file_line ''00000000000040008000000A'' ''A.swift''
              ''000000000000400080000009''"

definition build6 :: string where
  "build6 = build_file_line ''00000000000040008000000C'' ''B.swift''
              ''00000000000040008000000B''"

definition child2 :: string where
  "child2 = entry_line ''000000000000400080000007'' ''AIPluginWindowManager.swift''"

definition file4 :: string where
  "file4 = entry_line ''000000000000400080000008'' ''AIPluginWindowManager.swift in Sources''"

definition file5 :: string where
  "file5 = entry_line ''00000000000040008000000A'' ''A.swift in Sources''"

definition file6 :: string where
  "file6 = entry_line ''00000000000040008000000C'' ''B.swift in Sources''"


text \<open>A descriptor that holds the Sources group and nothing else, and no source root.\<close>

definition sources_group_only :: string where
  "sources_group_only =
     ''080E96DDFE201D6D7F000001 /* Sources */ = {children = ('' @ [NL] @ '');};''"

definition missing_sources :: world where
  "missing_sources = \<lparr>pbxproj = Some sources_group_only, aiplugins_tree = None,
     resources_tree = None, uuid4 = sample_uuid4, writable = True\<rparr>"

text \<open>A descriptor without any of the four anchors.\<close>

definition no_anchors :: string where
  "no_anchors = ''// !$*UTF8*$!'' @ [NL] @ ''{ objects = { }; }'' @ [NL]"

definition no_anchor_world :: world where
  "no_anchor_world = \<lparr>pbxproj = Some no_anchors, aiplugins_tree = Some (Dir []),
     resources_tree = Some (Dir []), uuid4 = sample_uuid4, writable = True\<rparr>"

text \<open>A resource tree with a nested directory inside a \<open>.lproj\<close> bundle.\<close>

definition lproj_tree :: node where
  "lproj_tree = Dir [(''en.lproj'', Dir [(''Localizable.strings'', File),
                                          (''extra'', Dir [(''notes.json'', File)])])]"

text \<open>A descriptor in which two groups have the same list of children.\<close>

definition two_groups :: string where
  "two_groups =
     ''AAAA00000000000000000001 /* Other */ = {children = ('' @ [NL, TAB]
       @ ''F1 /* f.swift */,'' @ [NL] @ ''); };'' @ [NL]
     @ ''080E96DDFE201D6D7F000001 /* Sources */ = {children = ('' @ [NL, TAB]
       @ ''F1 /* f.swift */,'' @ [NL] @ ''); };'' @ [NL]"

text \<open>A source tree in which two files have the same base name.\<close>

definition same_name_tree :: node where
  "same_name_tree = Dir [(''a'', Dir [(''X.swift'', File)]), (''b'', Dir [(''X.swift'', File)])]"

section \<open>Exit status and failures\<close>



section \<open>A missing source root\<close>

lemma find_all_swift_files_no_root:
  "find_all_swift_files d None = []"
  "find_all_swift_files d (Some Unreadable) = []"
  "find_all_swift_files d (Some (Dir [])) = []"
  by (simp_all add: find_all_swift_files_def os_walk_def)

lemma patch_sources_group_only:
  "patch_all sample_uuid4 [] sources_group_only =
     (''080E96DDFE201D6D7F000001 /* Sources */ = {children = ('' @ [NL]
        @ list_entry ''000000000000400080000001'' ''AIPluginWindowManager.swift'' @ '');};'',
      [AddedToSourcesGroup])"
  by code_simp

text \<open>
  Claim C3, as stated, fails: with no source root the run raises nothing, patches the
  Sources group and writes the descriptor back, changed.
\<close>

theorem missing_source_root_is_not_fatal:
  "aiplugins_tree missing_sources = None
   \<and> raised (add_files_to_project missing_sources) = None
   \<and> written (add_files_to_project missing_sources) =
       Some (''080E96DDFE201D6D7F000001 /* Sources */ = {children = ('' @ [NL]
             @ list_entry ''000000000000400080000001'' ''AIPluginWindowManager.swift''
             @ '');};'')
   \<and> written (add_files_to_project missing_sources) \<noteq> pbxproj missing_sources"
proof -
  have w: "written (add_files_to_project missing_sources) =
             Some (''080E96DDFE201D6D7F000001 /* Sources */ = {children = ('' @ [NL]
                   @ list_entry ''000000000000400080000001'' ''AIPluginWindowManager.swift''
                   @ '');};'')"
    by (simp add: add_files_to_project_def missing_sources_def find_all_swift_files_no_root
          patch_sources_group_only Let_def)
  have r: "raised (add_files_to_project missing_sources) = None"
    by (simp add: add_files_to_project_def missing_sources_def Let_def split: prod.splits)
  have d: "written (add_files_to_project missing_sources) \<noteq> pbxproj missing_sources"
    unfolding w by (simp add: missing_sources_def sources_group_only_def list_entry_def)
  show ?thesis using w r d by (simp add: missing_sources_def)
qed

text \<open>
  Claim C3, amended: when the source root does not exist or cannot be listed, discovery
  raises nothing and finds no file; the run goes on exactly as for an empty directory,
  and when the descriptor can be read and written it is patched with the records of
  the window manager alone and written back.
\<close>

theorem missing_source_root_is_empty:
  assumes "aiplugins_tree w = None \<or> aiplugins_tree w = Some Unreadable"
  shows "find_all_swift_files aiplugins_dir (aiplugins_tree w) = []
         \<and> add_files_to_project w = add_files_to_project (w\<lparr>aiplugins_tree := Some (Dir [])\<rparr>)
         \<and> (pbxproj w = Some c \<and> writable w \<longrightarrow>
              raised (add_files_to_project w) = None
              \<and> written (add_files_to_project w) = Some (fst (patch_all (uuid4 w) [] c)))"
  using assms
  by (auto simp: add_files_to_project_def find_all_swift_files_no_root Let_def
           split: option.splits prod.splits)

text \<open>Claim C3, amended: the sample run without a source root.\<close>

theorem missing_source_root_is_empty_witness:
  "(aiplugins_tree missing_sources = None \<or> aiplugins_tree missing_sources = Some Unreadable)
   \<and> pbxproj missing_sources = Some sources_group_only \<and> writable missing_sources
   \<and> find_all_swift_files aiplugins_dir (aiplugins_tree missing_sources) = []
   \<and> raised (add_files_to_project missing_sources) = None
   \<and> written (add_files_to_project missing_sources)
       = Some (fst (patch_all (uuid4 missing_sources) [] sources_group_only))"
proof -
  have h: "aiplugins_tree missing_sources = None \<or> aiplugins_tree missing_sources = Some Unreadable"
    by (simp add: missing_sources_def)
  have p: "pbxproj missing_sources = Some sources_group_only \<and> writable missing_sources"
    by (simp add: missing_sources_def)
  note t = missing_source_root_is_empty [OF h, of sources_group_only]
  from t have a: "find_all_swift_files aiplugins_dir (aiplugins_tree missing_sources) = []"
    by (rule conjunct1)
  from t p have b: "raised (add_files_to_project missing_sources) = None
      \<and> written (add_files_to_project missing_sources)
          = Some (fst (patch_all (uuid4 missing_sources) [] sources_group_only))"
    by blast
  from h p a b show ?thesis by blast
qed

section \<open>Absent anchors\<close>

lemma no_anchors_search:
  "search_file_references no_anchors = None"
  "search_build_files no_anchors = None"
  "search_sources_group no_anchors = None"
  "search_sources_phase no_anchors = None"
  by code_simp+

text \<open>
  Claim C4, as stated, fails: on a descriptor without any anchor the run prints the
  lines below and nothing else, so no line reports a missing region.
\<close>

theorem absent_anchors_print_no_warning:
  "printed (main no_anchor_world) =
     [ReadingProject, ScanningSources, FoundSwiftFiles 0, ScanningResources, FoundResources 0,
      ModifyingProject, SavingProject, ProjectUpdated, Finished, StatisticsHeader,
      SourcesAdded 1, ResourcesAdded 0]"
  by code_simp

text \<open>
  Claim C4, amended: a patch step whose search finds no match returns the content
  unchanged and prints nothing; the run is not aborted, and a descriptor that can be
  read and written is written back whatever the four searches find.
\<close>

theorem absent_anchor_is_skipped_silently:
  "(search_file_references c = None \<longrightarrow> patch_file_references rs c = (c, []))
   \<and> (search_build_files c = None \<longrightarrow> patch_build_files bs c = (c, []))
   \<and> (search_sources_group c = None \<longrightarrow> patch_sources_group wm c = (c, []))
   \<and> (search_sources_phase c = None \<longrightarrow> patch_sources_phase es c = (c, []))
   \<and> (pbxproj w = Some c \<and> writable w \<longrightarrow>
        raised (add_files_to_project w) = None
        \<and> written (add_files_to_project w)
            = Some (fst (patch_all (uuid4 w)
                           (find_all_swift_files aiplugins_dir (aiplugins_tree w)) c)))"
  by (simp add: patch_file_references_def patch_build_files_def patch_sources_group_def
        patch_sources_phase_def add_files_to_project_def Let_def split: prod.splits)

text \<open>Claim C4, amended: the descriptor without anchors.\<close>

theorem absent_anchor_is_skipped_silently_witness:
  "search_file_references no_anchors = None \<and> search_build_files no_anchors = None
   \<and> search_sources_group no_anchors = None \<and> search_sources_phase no_anchors = None
   \<and> pbxproj no_anchor_world = Some no_anchors \<and> writable no_anchor_world
   \<and> patch_file_references (file_references sample_uuid4 []) no_anchors = (no_anchors, [])
   \<and> patch_build_files (build_file_refs sample_uuid4 []) no_anchors = (no_anchors, [])
   \<and> patch_sources_group (wm_uuid sample_uuid4) no_anchors = (no_anchors, [])
   \<and> patch_sources_phase (new_files_list sample_uuid4 []) no_anchors = (no_anchors, [])
   \<and> raised (add_files_to_project no_anchor_world) = None"
  using absent_anchor_is_skipped_silently [of no_anchors "file_references sample_uuid4 []"
      "build_file_refs sample_uuid4 []" "wm_uuid sample_uuid4" "new_files_list sample_uuid4 []"
      no_anchor_world]
    no_anchors_search
  by (simp add: no_anchor_world_def)

section \<open>Resource discovery\<close>

text \<open>
  Claim C5 at a tree with a directory inside a \<open>.lproj\<close> bundle: the bundle is one
  folder entry and the strings file directly inside it is skipped, but the walk goes
  on below the bundle and the file in the nested directory is listed.
\<close>

theorem lproj_bundle_is_descended:
  "find_all_resource_files resources_dir (Some lproj_tree) =
     [(''en.lproj'', ''folder''), (''en.lproj/extra/notes.json'', ''file'')]"
  by code_simp

section \<open>Replacement of every occurrence\<close>

text \<open>
  Claim C6 at a descriptor in which another group has the same children text as the
  Sources group: the search matches the Sources group, and the replacement extends
  both lists.
\<close>

theorem replace_touches_every_occurrence:
  "search_sources_group two_groups = Some ([NL, TAB] @ ''F1 /* f.swift */,'' @ [NL])
   \<and> fst (patch_sources_group ''000000000000400080000001'' two_groups) =
       ''AAAA00000000000000000001 /* Other */ = {children = ('' @ [NL, TAB]
         @ ''F1 /* f.swift */,'' @ [NL]
         @ list_entry ''000000000000400080000001'' ''AIPluginWindowManager.swift''
         @ ''); };'' @ [NL]
       @ ''080E96DDFE201D6D7F000001 /* Sources */ = {children = ('' @ [NL, TAB]
         @ ''F1 /* f.swift */,'' @ [NL]
         @ list_entry ''000000000000400080000001'' ''AIPluginWindowManager.swift''
         @ ''); };'' @ [NL]"
  by code_simp

section \<open>Files with the same base name\<close>

text \<open>
  Claim C7 at a tree with \<open>a/X.swift\<close> and \<open>b/X.swift\<close>: the lookup by base name
  finds the build line of \<open>a/X.swift\<close> for both files, so its identifier is entered
  twice in the phase list and the identifier of \<open>b/X.swift\<close> is not entered.
\<close>

theorem same_base_name_duplicates_entry:
  "find_all_swift_files aiplugins_dir (Some same_name_tree) = [''a/X.swift'', ''b/X.swift'']
   \<and> build_file_refs sample_uuid4 [''a/X.swift'', ''b/X.swift''] =
       [build_file_line ''000000000000400080000002'' ''AIPluginWindowManager.swift''
          ''000000000000400080000001'',
        build_file_line ''000000000000400080000004'' ''X.swift'' ''000000000000400080000003'',
        build_file_line ''000000000000400080000006'' ''X.swift'' ''000000000000400080000005'']
   \<and> new_files_list sample_uuid4 [''a/X.swift'', ''b/X.swift''] =
       [list_entry ''000000000000400080000002'' ''AIPluginWindowManager.swift in Sources'',
        list_entry ''000000000000400080000004'' ''X.swift in Sources'',
        list_entry ''000000000000400080000004'' ''X.swift in Sources'']"
  by code_simp

section \<open>Referential integrity of the synthesized records\<close>

lemma length_swift_records: "length (swift_records u k fs) = length fs"
  by (induction fs arbitrary: k) (simp_all add: Let_def)




section \<open>Resources do not reach the descriptor\<close>

lemma with_resource_count_patch_step:
  "map (with_resource_count n) (snd (patch_file_references rs c)) = snd (patch_file_references rs c)"
  "map (with_resource_count n) (snd (patch_build_files bs c)) = snd (patch_build_files bs c)"
  "map (with_resource_count n) (snd (patch_sources_group wm c)) = snd (patch_sources_group wm c)"
  "map (with_resource_count n) (snd (patch_sources_phase es c)) = snd (patch_sources_phase es c)"
  by (simp_all add: patch_file_references_def patch_build_files_def patch_sources_group_def
        patch_sources_phase_def split: option.splits)

lemma snd_patch_all:
  "snd (patch_all u fs c) =
     snd (patch_file_references (file_references u fs) c)
     @ snd (patch_build_files (build_file_refs u fs)
              (fst (patch_file_references (file_references u fs) c)))
     @ snd (patch_sources_group (wm_uuid u)
              (fst (patch_build_files (build_file_refs u fs)
                      (fst (patch_file_references (file_references u fs) c)))))
     @ snd (patch_sources_phase (new_files_list u fs)
              (fst (patch_sources_group (wm_uuid u)
                      (fst (patch_build_files (build_file_refs u fs)
                              (fst (patch_file_references (file_references u fs) c)))))))"
  by (simp add: patch_all_def Let_def split: prod.splits)

lemma with_resource_count_patch_all:
  "patch_all u fs c = (c', ms) \<Longrightarrow> map (with_resource_count n) ms = ms"
  using snd_patch_all [of u fs c] by (simp add: with_resource_count_patch_step)

text \<open>
  Claim C10: replacing the resource tree of a run by any other tree changes neither the
  content written, nor the failure raised, nor the exit status; of the printed lines
  only the two resource counts change.
\<close>

theorem resources_do_not_influence_descriptor:
  "written (add_files_to_project (w\<lparr>resources_tree := r\<rparr>)) = written (add_files_to_project w)
   \<and> raised (add_files_to_project (w\<lparr>resources_tree := r\<rparr>)) = raised (add_files_to_project w)
   \<and> stored (main (w\<lparr>resources_tree := r\<rparr>)) = stored (main w)
   \<and> exit_status (main (w\<lparr>resources_tree := r\<rparr>)) = exit_status (main w)
   \<and> console (add_files_to_project (w\<lparr>resources_tree := r\<rparr>)) =
       map (with_resource_count (length (find_all_resource_files resources_dir r)))
         (console (add_files_to_project w))"
  by (simp add: main_def add_files_to_project_def Let_def with_resource_count_patch_all
        split: option.splits prod.splits)

section \<open>Occurrences of a text\<close>

lemma startswith_iff_prefix: "startswith s p \<longleftrightarrow> prefix p s"
  by (induction s p rule: startswith.induct) auto

lemma split_first_SomeD: "split_first p s = Some (a, b) \<Longrightarrow> s = a @ p @ b"
proof (induction s arbitrary: a b)
  case Nil
  then show ?case by (simp split: if_splits)
next
  case (Cons c cs)
  show ?case
  proof (cases "startswith (c # cs) p")
    case True
    with Cons.prems show ?thesis
      by (auto simp: startswith_iff_prefix prefix_def)
  next
    case False
    with Cons.prems obtain a' where "split_first p cs = Some (a', b)" "a = c # a'"
      by (auto split: if_splits)
    with Cons.IH show ?thesis by simp
  qed
qed

lemma split_first_occurs: "s = a @ p @ b \<Longrightarrow> split_first p s \<noteq> None"
proof (induction s arbitrary: a)
  case Nil
  then show ?case by simp
next
  case (Cons c cs)
  show ?case
  proof (cases "startswith (c # cs) p")
    case True
    then show ?thesis by simp
  next
    case False
    with Cons.prems have "a \<noteq> []"
      by (auto simp: startswith_iff_prefix)
    with Cons.prems obtain a' where "a = c # a'" "cs = a' @ p @ b"
      by (cases a) auto
    with Cons.IH False show ?thesis by simp
  qed
qed

lemma str_in_iff: "str_in p s \<longleftrightarrow> (\<exists>a b. s = a @ p @ b)"
proof
  assume "str_in p s"
  then obtain a b where "split_first p s = Some (a, b)"
    by (auto simp: str_in_def)
  then show "\<exists>a b. s = a @ p @ b" by (blast dest: split_first_SomeD)
next
  assume "\<exists>a b. s = a @ p @ b"
  then obtain a b where "s = a @ p @ b" by blast
  from split_first_occurs [OF this] show "str_in p s" by (simp add: str_in_def)
qed

lemma str_in_Nil: "str_in [] s"
  by (cases s) (simp_all add: str_in_def)

lemma str_in_length: "str_in p s \<Longrightarrow> length p \<le> length s"
  by (auto simp: str_in_iff)

lemma str_in_Cons: "str_in p (c # s) \<longleftrightarrow> prefix p (c # s) \<or> str_in p s"
  by (cases "startswith (c # s) p")
     (auto simp: str_in_def startswith_iff_prefix)

lemma str_in_prefix_pattern: "str_in (p @ q) s \<Longrightarrow> str_in p s"
  by (auto simp: str_in_iff)

lemma prefix_short: "prefix p (xs @ ys) \<Longrightarrow> length p \<le> length xs \<Longrightarrow> prefix p xs"
  by (auto simp: prefix_append)

lemma prefix_before_last:
  assumes "p \<noteq> []" "x \<noteq> []" "prefix p (x @ p @ b)"
  shows "prefix p (x @ butlast p)"
proof -
  have "x @ p @ b = (x @ butlast p) @ last p # b"
    using assms(1) by (metis append.assoc append_Cons append_Nil append_butlast_last_id)
  with assms(3) have "prefix p ((x @ butlast p) @ last p # b)" by simp
  then show ?thesis
    by (rule prefix_short) (use assms in \<open>cases x; simp\<close>)
qed

lemma not_prefix_before:
  assumes "\<not> str_in p ((c # a) @ butlast p)"
  shows "p \<noteq> []" "\<not> prefix p (c # a @ p @ b)" "\<not> str_in p (a @ butlast p)"
proof -
  show p: "p \<noteq> []" using assms str_in_Nil by auto
  from assms have 1: "\<not> prefix p (c # a @ butlast p)"
    by (auto simp: str_in_Cons)
  show "\<not> prefix p (c # a @ p @ b)"
    using prefix_before_last [OF p, of "c # a" b] 1 by auto
  show "\<not> str_in p (a @ butlast p)"
    using assms by (auto simp: str_in_Cons)
qed

lemma split_first_found:
  "\<not> str_in p (a @ butlast p) \<Longrightarrow> split_first p (a @ p @ b) = Some (a, b)"
proof (induction a)
  case Nil
  then have "p \<noteq> []" using str_in_Nil by auto
  then obtain c cs where "p @ b = c # cs" by (cases p) auto
  moreover have "startswith (p @ b) p" by (simp add: startswith_iff_prefix)
  ultimately show ?case by (metis append_Nil append_eq_conv_conj split_first.simps(2))
next
  case (Cons c a)
  from not_prefix_before [OF Cons.prems] Cons.IH show ?case
    by (simp add: startswith_iff_prefix)
qed

lemma repl_absent: "\<not> str_in old s \<Longrightarrow> repl old new s = s"
  by (induction s) (auto simp: str_in_Cons startswith_iff_prefix)

lemma repl_found:
  "\<not> str_in old (a @ butlast old) \<Longrightarrow> repl old new (a @ old @ b) = a @ new @ repl old new b"
proof (induction a)
  case Nil
  then have "old \<noteq> []" using str_in_Nil by auto
  then obtain c cs where ccs: "old @ b = c # cs" by (cases old) auto
  have "startswith (old @ b) old" by (simp add: startswith_iff_prefix)
  with ccs \<open>old \<noteq> []\<close> have "repl old new (old @ b) = new @ repl old new (drop (length old) (old @ b))"
    by (metis repl.simps(2))
  then show ?case by simp
next
  case (Cons c a)
  from not_prefix_before [OF Cons.prems] Cons.IH show ?case
    by (simp add: startswith_iff_prefix)
qed

lemma replace_found:
  "\<not> str_in old (a @ butlast old) \<Longrightarrow> \<not> str_in old b \<Longrightarrow>
   replace old new (a @ old @ b) = a @ new @ b"
  using str_in_Nil [of b] by (auto simp: replace_def repl_found repl_absent)

lemma not_str_in_stem:
  "\<not> str_in p (a @ butlast p) \<Longrightarrow> \<not> str_in (p @ q) (a @ butlast (p @ q))"
proof (induction a)
  case Nil
  then have "p \<noteq> []" using str_in_Nil by auto
  then have "length (butlast (p @ q)) < length (p @ q)" by (cases p) auto
  then show ?case using str_in_length [of "p @ q" "butlast (p @ q)"] by auto
next
  case (Cons c a)
  note n = not_prefix_before [OF Cons.prems]
  have "\<not> prefix (p @ q) (c # a @ butlast (p @ q))"
  proof
    assume "prefix (p @ q) (c # a @ butlast (p @ q))"
    then have "prefix p (c # a @ butlast (p @ q))"
      by (meson append_prefixD)
    moreover have "butlast (p @ q) = (if q = [] then butlast p else p @ butlast q)"
      by (simp add: butlast_append)
    ultimately have "prefix p (c # a @ butlast p) \<or> prefix p (c # a @ p @ butlast q)"
      by (auto split: if_splits)
    with n(2) [of "butlast q"] Cons.prems show False by (auto simp: str_in_Cons)
  qed
  with Cons.IH [OF n(3)] show ?case by (simp add: str_in_Cons)
qed

section \<open>A patch step on a clear region\<close>

lemma str_in_append_left: "str_in p t \<Longrightarrow> str_in p (x @ t)"
  by (auto simp: str_in_iff) (metis append.assoc)

lemma str_in_append_right: "str_in p t \<Longrightarrow> str_in p (t @ x)"
  by (auto simp: str_in_iff) (metis append.assoc)

lemma section_found:
  assumes "\<not> str_in A (pre @ butlast A)" "\<not> str_in E (body @ butlast E)"
  shows "re_search_section A E (pre @ A @ body @ E @ post) = Some (A @ body)"
  using split_first_found [OF assms(1), of "body @ E @ post"]
    split_first_found [OF assms(2), of post]
  by (simp add: re_search_section_def)

lemma section_replaced:
  assumes "\<not> str_in A (pre @ butlast A)" "\<not> str_in A (body @ E @ post)"
  shows "replace (A @ body) (A @ body @ X) (pre @ A @ body @ E @ post)
           = pre @ A @ body @ X @ E @ post"
proof -
  have 1: "\<not> str_in (A @ body) (pre @ butlast (A @ body))"
    using assms(1) by (rule not_str_in_stem)
  have 2: "\<not> str_in (A @ body) (E @ post)"
    using assms(2) str_in_append_left [of A "E @ post" body] str_in_prefix_pattern [of A body]
    by auto
  from replace_found [OF 1 2, of "A @ body @ X"] show ?thesis by simp
qed

lemma list_found:
  assumes "\<not> str_in H (pre @ butlast H)" "\<not> str_in O' (mid @ butlast O')"
    "\<not> str_in C (items @ butlast C)"
  shows "re_search_list H O' C (pre @ H @ mid @ O' @ items @ C @ post) = Some items"
  using split_first_found [OF assms(1), of "mid @ O' @ items @ C @ post"]
    split_first_found [OF assms(2), of "items @ C @ post"]
    split_first_found [OF assms(3), of post]
  by (simp add: re_search_list_def)

lemma render_file_refs:
  "render L = before_file_refs L @ begin_file_references @ file_refs L
                @ (NL # end_file_references) @ after_file_refs L"
  by (simp add: render_def before_file_refs_def after_build_files_def)

lemma patch_file_references_clear:
  assumes "clear_file_refs L"
  shows "patch_file_references ls (render L) =
           (render (L\<lparr>file_refs := file_refs L @ section_addition ls\<rparr>), [AddedFileReferences])"
proof -
  from assms have 1: "\<not> str_in begin_file_references (before_file_refs L @ butlast begin_file_references)"
    and 2: "\<not> str_in (NL # end_file_references) (file_refs L @ butlast (NL # end_file_references))"
    and 3: "\<not> str_in begin_file_references (file_refs L @ (NL # end_file_references) @ after_file_refs L)"
    by (simp_all add: clear_file_refs_def)
  have s: "search_file_references (render L) = Some (begin_file_references @ file_refs L)"
    unfolding search_file_references_def render_file_refs by (rule section_found [OF 1 2])
  have r: "replace (begin_file_references @ file_refs L)
             (begin_file_references @ file_refs L @ section_addition ls) (render L)
           = before_file_refs L @ begin_file_references @ file_refs L @ section_addition ls
               @ (NL # end_file_references) @ after_file_refs L"
    unfolding render_file_refs by (rule section_replaced [OF 1 3])
  have a: "(begin_file_references @ file_refs L) @ [NL] @ join [NL] ls @ [NL]
             = begin_file_references @ file_refs L @ section_addition ls"
    by (simp add: section_addition_def)
  have "patch_file_references ls (render L) =
          (before_file_refs L @ begin_file_references @ file_refs L @ section_addition ls
             @ (NL # end_file_references) @ after_file_refs L, [AddedFileReferences])"
    unfolding patch_file_references_def s option.case a r ..
  also have "before_file_refs L @ begin_file_references @ file_refs L @ section_addition ls
               @ (NL # end_file_references) @ after_file_refs L
             = render (L\<lparr>file_refs := file_refs L @ section_addition ls\<rparr>)"
    by (simp add: render_def before_file_refs_def after_build_files_def after_file_refs_def
          after_children_def)
  finally show ?thesis .
qed

lemma patch_build_files_clear:
  assumes "clear_build_files L"
  shows "patch_build_files ls (render L) =
           (render (L\<lparr>build_files := build_files L @ section_addition ls\<rparr>),
            [AddedBuildReferences])"
proof -
  have rd: "render L = preamble L @ begin_build_files @ build_files L
              @ (NL # end_build_files) @ after_build_files L"
    by (simp add: render_def)
  from assms have 1: "\<not> str_in begin_build_files (preamble L @ butlast begin_build_files)"
    and 2: "\<not> str_in (NL # end_build_files) (build_files L @ butlast (NL # end_build_files))"
    and 3: "\<not> str_in begin_build_files
              (build_files L @ (NL # end_build_files) @ after_build_files L)"
    by (simp_all add: clear_build_files_def)
  have s: "search_build_files (render L) = Some (begin_build_files @ build_files L)"
    unfolding search_build_files_def rd by (rule section_found [OF 1 2])
  have r: "replace (begin_build_files @ build_files L)
             (begin_build_files @ build_files L @ section_addition ls) (render L)
           = preamble L @ begin_build_files @ build_files L @ section_addition ls
               @ (NL # end_build_files) @ after_build_files L"
    unfolding rd by (rule section_replaced [OF 1 3])
  have a: "(begin_build_files @ build_files L) @ [NL] @ join [NL] ls @ [NL]
             = begin_build_files @ build_files L @ section_addition ls"
    by (simp add: section_addition_def)
  have "patch_build_files ls (render L) =
          (preamble L @ begin_build_files @ build_files L @ section_addition ls
             @ (NL # end_build_files) @ after_build_files L, [AddedBuildReferences])"
    unfolding patch_build_files_def s option.case a r ..
  also have "preamble L @ begin_build_files @ build_files L @ section_addition ls
               @ (NL # end_build_files) @ after_build_files L
             = render (L\<lparr>build_files := build_files L @ section_addition ls\<rparr>)"
    by (simp add: render_def after_build_files_def after_file_refs_def after_children_def)
  finally show ?thesis .
qed

lemma patch_sources_group_clear:
  assumes "clear_children L"
  shows "patch_sources_group wm (render L) =
           (render (L\<lparr>children := children L @ list_entry wm ''AIPluginWindowManager.swift''\<rparr>),
            [AddedToSourcesGroup])"
proof -
  have rd: "render L = before_group L @ sources_group @ group_head L @ children_open
              @ children L @ list_close @ after_children L"
    by (simp add: render_def before_group_def before_file_refs_def after_build_files_def
          after_file_refs_def)
  have rd': "render L = before_children L @ children L @ (list_close @ after_children L)"
    by (simp add: rd before_children_def)
  from assms have 1: "\<not> str_in sources_group (before_group L @ butlast sources_group)"
    and 2: "\<not> str_in children_open (group_head L @ butlast children_open)"
    and 3: "\<not> str_in list_close (children L @ butlast list_close)"
    and 4: "\<not> str_in (children L) (before_children L @ butlast (children L))"
    and 5: "\<not> str_in (children L) (list_close @ after_children L)"
    by (simp_all add: clear_children_def)
  have s: "search_sources_group (render L) = Some (children L)"
    unfolding search_sources_group_def rd by (rule list_found [OF 1 2 3])
  have r: "replace (children L) (children L @ list_entry wm ''AIPluginWindowManager.swift'')
             (render L)
           = before_children L @ (children L @ list_entry wm ''AIPluginWindowManager.swift'')
               @ (list_close @ after_children L)"
    unfolding rd' by (rule replace_found [OF 4 5])
  have "patch_sources_group wm (render L) =
          (before_children L @ (children L @ list_entry wm ''AIPluginWindowManager.swift'')
             @ (list_close @ after_children L), [AddedToSourcesGroup])"
    unfolding patch_sources_group_def s option.case r ..
  also have "before_children L @ (children L @ list_entry wm ''AIPluginWindowManager.swift'')
               @ (list_close @ after_children L)
             = render (L\<lparr>children := children L
                          @ list_entry wm ''AIPluginWindowManager.swift''\<rparr>)"
    by (simp add: render_def before_children_def before_group_def before_file_refs_def
          after_build_files_def after_file_refs_def after_children_def)
  finally show ?thesis .
qed

lemma patch_sources_phase_clear:
  assumes "clear_files L"
  shows "patch_sources_phase es (render L) =
           (render (L\<lparr>files := files L @ concat es\<rparr>), [AddedToBuildPhase])"
proof -
  have rd: "render L = before_phase L @ sources_phase @ phase_head L @ files_open
              @ files L @ list_close @ trailer L"
    by (simp add: render_def before_phase_def before_children_def before_group_def
          before_file_refs_def after_build_files_def after_file_refs_def after_children_def)
  have rd': "render L = before_files L @ files L @ (list_close @ trailer L)"
    by (simp add: rd before_files_def)
  from assms have 1: "\<not> str_in sources_phase (before_phase L @ butlast sources_phase)"
    and 2: "\<not> str_in files_open (phase_head L @ butlast files_open)"
    and 3: "\<not> str_in list_close (files L @ butlast list_close)"
    and 4: "\<not> str_in (files L) (before_files L @ butlast (files L))"
    and 5: "\<not> str_in (files L) (list_close @ trailer L)"
    by (simp_all add: clear_files_def)
  have s: "search_sources_phase (render L) = Some (files L)"
    unfolding search_sources_phase_def rd by (rule list_found [OF 1 2 3])
  have r: "replace (files L) (files L @ concat es) (render L)
           = before_files L @ (files L @ concat es) @ (list_close @ trailer L)"
    unfolding rd' by (rule replace_found [OF 4 5])
  have "patch_sources_phase es (render L) =
          (before_files L @ (files L @ concat es) @ (list_close @ trailer L),
           [AddedToBuildPhase])"
    unfolding patch_sources_phase_def s option.case r ..
  also have "before_files L @ (files L @ concat es) @ (list_close @ trailer L)
             = render (L\<lparr>files := files L @ concat es\<rparr>)"
    by (simp add: render_def before_files_def before_phase_def before_children_def
          before_group_def before_file_refs_def after_build_files_def after_file_refs_def
          after_children_def)
  finally show ?thesis .
qed

lemma patch_all_unambiguous:
  assumes "unambiguous u fs L"
  shows "patch_all u fs (render L) =
           (render (after_run u fs L),
            [AddedFileReferences, AddedBuildReferences, AddedToSourcesGroup, AddedToBuildPhase])"
proof -
  from assms have 1: "clear_file_refs L"
    and 2: "clear_build_files (add_file_refs u fs L)"
    and 3: "clear_children (add_build_files u fs (add_file_refs u fs L))"
    and 4: "clear_files (add_child u (add_build_files u fs (add_file_refs u fs L)))"
    by (simp_all add: unambiguous_def)
  have s1: "patch_file_references (file_references u fs) (render L)
              = (render (add_file_refs u fs L), [AddedFileReferences])"
    using patch_file_references_clear [OF 1] by (simp add: add_file_refs_def)
  have s2: "patch_build_files (build_file_refs u fs) (render (add_file_refs u fs L))
              = (render (add_build_files u fs (add_file_refs u fs L)), [AddedBuildReferences])"
    using patch_build_files_clear [OF 2] by (simp add: add_build_files_def)
  have s3: "patch_sources_group (wm_uuid u) (render (add_build_files u fs (add_file_refs u fs L)))
              = (render (add_child u (add_build_files u fs (add_file_refs u fs L))),
                 [AddedToSourcesGroup])"
    using patch_sources_group_clear [OF 3] by (simp add: add_child_def)
  have s4: "patch_sources_phase (new_files_list u fs)
              (render (add_child u (add_build_files u fs (add_file_refs u fs L))))
              = (render (after_run u fs L), [AddedToBuildPhase])"
    using patch_sources_phase_clear [OF 4] by (simp add: add_files_def after_run_def)
  show ?thesis
    by (simp add: patch_all_def s1 s2 s3 s4)
qed

section \<open>Occurrences across line breaks\<close>

lemma prefix_before_break: "c \<notin> set p \<Longrightarrow> prefix p (x @ c # y) \<longleftrightarrow> prefix p x"
  by (auto simp: prefix_append prefix_Cons)

lemma str_in_empty: "str_in p [] \<longleftrightarrow> p = []"
  by (simp add: str_in_def)

lemma str_in_break:
  "c \<notin> set p \<Longrightarrow> str_in p (x @ c # y) \<longleftrightarrow> str_in p x \<or> str_in p y"
proof (induction x)
  case Nil
  then show ?case
    using str_in_Nil [of y] by (auto simp: str_in_Cons str_in_empty prefix_Cons)
next
  case (Cons d x)
  then show ?case
    using prefix_before_break [of c p "d # x" y] by (auto simp: str_in_Cons)
qed

lemma str_in_break_first: "c \<notin> set p \<Longrightarrow> str_in p (c # y) \<longleftrightarrow> str_in p y"
  using str_in_break [of c p "[]" y] str_in_Nil [of y] by (auto simp: str_in_empty)

lemma str_in_headed_first:
  "str_in (c # e) (c # y) \<longleftrightarrow> startswith y e \<or> str_in (c # e) y"
  by (simp add: str_in_Cons startswith_iff_prefix)

lemma str_in_headed_break:
  "c \<notin> set e \<Longrightarrow>
   str_in (c # e) (x @ c # y) \<longleftrightarrow> str_in (c # e) x \<or> startswith y e \<or> str_in (c # e) y"
proof (induction x)
  case Nil
  then show ?case by (simp add: str_in_headed_first str_in_empty)
next
  case (Cons d x)
  then show ?case
    using prefix_before_break [of c e x y] by (auto simp: str_in_Cons)
qed

lemma startswith_break: "c \<notin> set e \<Longrightarrow> startswith (l @ c # z) e \<longleftrightarrow> startswith l e"
  by (simp add: startswith_iff_prefix prefix_before_break)

lemma startswith_break_first: "c \<notin> set e \<Longrightarrow> startswith (c # z) e \<longleftrightarrow> e = []"
  using startswith_break [of c e "[]" z] by (cases e) simp_all

lemma str_in_group: "str_in p (x @ y @ z) = str_in p ((x @ y) @ z)"
  by simp

lemma startswith_group: "startswith (x @ y @ z) e = startswith ((x @ y) @ z) e"
  by simp

section \<open>Identifiers and the phase entries\<close>

lemma hex_digits_upper:
  "list_all (\<lambda>k. is_HEX (if CHR ''a'' \<le> hex_digit k \<and> hex_digit k \<le> CHR ''z''
                           then char_of (of_char (hex_digit k) - (32::nat)) else hex_digit k))
     [0..<16]"
  by code_simp

lemma unat_nibble: "unat (x AND (15 :: 128 word)) < 16"
proof -
  have "x AND 15 \<le> (15 :: 128 word)" by (rule word_and_le1)
  then have "unat (x AND 15) \<le> unat (15 :: 128 word)" by (simp add: word_le_nat_alt)
  then show ?thesis by simp
qed

lemma generate_uuid_token:
  "length (generate_uuid w) = 24" "list_all is_HEX (generate_uuid w)"
proof -
  show "length (generate_uuid w) = 24"
    by (simp add: generate_uuid_def upper_def hex_def)
  define up where "up c = (if CHR ''a'' \<le> c \<and> c \<le> CHR ''z''
                           then char_of (of_char c - (32::nat)) else c)" for c :: char
  have "is_HEX (up (hex_digit k))" if "k < 16" for k
    using hex_digits_upper that by (simp add: list_all_iff up_def)
  then have e: "is_HEX (up (hex_digit (unat (x AND 15))))" for x :: "128 word"
    by (simp add: unat_nibble)
  have g: "generate_uuid w =
             take 24 (map (\<lambda>i. up (hex_digit (unat (drop_bit (4 * i) w AND 15)))) (rev [0..<32]))"
    by (simp add: generate_uuid_def upper_def hex_def up_def take_map)
  show "list_all is_HEX (generate_uuid w)"
    unfolding g by (auto simp: list_all_iff e dest!: in_set_takeD)
qed



lemma not_HEX_TAB: "\<not> is_HEX TAB"
  by code_simp

lemma re_search_hex24_build_file_line:
  assumes "length b = 24" "list_all is_HEX b"
  shows "re_search_hex24 (build_file_line b n f) = Some b"
proof -
  define rest where "rest = '' /* '' @ n @ '' in Sources */ = {isa = PBXBuildFile; fileRef = ''
                             @ f @ '' /* '' @ n @ '' */; };''"
  have l: "build_file_line b n f = TAB # TAB # b @ rest"
    by (simp add: build_file_line_def rest_def)
  from assms(1) obtain c cs where b: "b @ rest = c # cs" by (cases b) auto
  have "re_search_hex24 (b @ rest) = Some b"
    unfolding b re_search_hex24.simps using assms b [symmetric] by simp
  then show ?thesis
    unfolding l by (simp add: not_HEX_TAB)
qed

lemma lookup_build_ref_one:
  assumes "\<forall>r\<in>set refs. \<exists>b n f. r = build_file_line b n f \<and> length b = 24 \<and> list_all is_HEX b"
    and "\<exists>r\<in>set refs. str_in name r \<and> str_in '' in Sources '' r"
  shows "length (lookup_build_ref name refs) = 1"
  using assms
proof (induction refs)
  case Nil
  then show ?case by simp
next
  case (Cons r refs)
  show ?case
  proof (cases "str_in name r \<and> str_in '' in Sources '' r")
    case True
    from Cons.prems(1) obtain b n f where "r = build_file_line b n f" "length b = 24"
      "list_all is_HEX b" by auto
    with True show ?thesis by (simp add: re_search_hex24_build_file_line)
  next
    case False
    with Cons show ?thesis by auto
  qed
qed

lemma swift_records_build_lines:
  "r \<in> set (map snd (swift_records u k fs)) \<Longrightarrow>
   \<exists>b n f. r = build_file_line b n f \<and> length b = 24 \<and> list_all is_HEX b"
proof (induction fs arbitrary: k)
  case Nil
  then show ?case by simp
next
  case (Cons a fs)
  from Cons.prems
  have "r = build_file_line (generate_uuid (u (Suc k))) (basename a) (generate_uuid (u k))
        \<or> r \<in> set (map snd (swift_records u (Suc (Suc k)) fs))"
    by (simp add: Let_def)
  then show ?case
  proof
    assume "r = build_file_line (generate_uuid (u (Suc k))) (basename a) (generate_uuid (u k))"
    then show ?thesis using generate_uuid_token by blast
  next
    assume "r \<in> set (map snd (swift_records u (Suc (Suc k)) fs))"
    then show ?thesis by (rule Cons.IH)
  qed
qed

lemma build_file_refs_lines:
  assumes "r \<in> set (build_file_refs u fs)"
  shows "\<exists>b n f. r = build_file_line b n f \<and> length b = 24 \<and> list_all is_HEX b"
proof -
  from assms
  have "r = build_file_line (wm_build_uuid u) ''AIPluginWindowManager.swift'' (wm_uuid u)
        \<or> r \<in> set (map snd (swift_records u 2 fs))"
    by (simp add: build_file_refs_def)
  then show ?thesis
  proof
    assume "r = build_file_line (wm_build_uuid u) ''AIPluginWindowManager.swift'' (wm_uuid u)"
    then show ?thesis using generate_uuid_token unfolding wm_build_uuid_def by blast
  next
    assume "r \<in> set (map snd (swift_records u 2 fs))"
    then show ?thesis by (rule swift_records_build_lines)
  qed
qed

lemma build_file_line_contains:
  "str_in n (build_file_line b n f)" "str_in '' in Sources '' (build_file_line b n f)"
proof -
  have "build_file_line b n f = ([TAB, TAB] @ b @ '' /* '') @ n
          @ ('' in Sources */ = {isa = PBXBuildFile; fileRef = '' @ f @ '' /* '' @ n @ '' */; };'')"
    by (simp add: build_file_line_def)
  then show "str_in n (build_file_line b n f)" unfolding str_in_iff by blast
  have "build_file_line b n f = ([TAB, TAB] @ b @ '' /* '' @ n) @ '' in Sources ''
          @ (''*/ = {isa = PBXBuildFile; fileRef = '' @ f @ '' /* '' @ n @ '' */; };'')"
    by (simp add: build_file_line_def)
  then show "str_in '' in Sources '' (build_file_line b n f)" unfolding str_in_iff by blast
qed

lemma swift_records_own_line:
  "f \<in> set fs \<Longrightarrow>
   \<exists>b fid. build_file_line b (basename f) fid \<in> set (map snd (swift_records u k fs))"
proof (induction fs arbitrary: k)
  case Nil
  then show ?case by simp
next
  case (Cons a fs)
  show ?case
  proof (cases "f = a")
    case True
    have "build_file_line (generate_uuid (u (Suc k))) (basename a) (generate_uuid (u k))
            \<in> set (map snd (swift_records u k (a # fs)))"
      by (simp add: Let_def)
    with True show ?thesis by blast
  next
    case False
    with Cons.prems have "f \<in> set fs" by simp
    from Cons.IH [OF this, of "Suc (Suc k)"] obtain b fid
      where "build_file_line b (basename f) fid
               \<in> set (map snd (swift_records u (Suc (Suc k)) fs))" by blast
    then have "build_file_line b (basename f) fid \<in> set (map snd (swift_records u k (a # fs)))"
      by (simp add: Let_def)
    then show ?thesis by blast
  qed
qed

lemma build_file_refs_own_line:
  assumes "f \<in> set fs"
  shows "\<exists>r\<in>set (build_file_refs u fs). str_in (basename f) r \<and> str_in '' in Sources '' r"
proof -
  from swift_records_own_line [OF assms, of u 2] obtain b fid
    where "build_file_line b (basename f) fid \<in> set (map snd (swift_records u 2 fs))" by blast
  then have "build_file_line b (basename f) fid \<in> set (build_file_refs u fs)"
    by (simp add: build_file_refs_def)
  then show ?thesis using build_file_line_contains by blast
qed

lemma length_concat_singletons:
  "(\<forall>x\<in>set xs. length (g x) = 1) \<Longrightarrow> length (concat (map g xs)) = length xs"
  by (induction xs) auto

lemma length_new_files_list: "length (new_files_list u fs) = length fs + 1"
proof -
  have "length (lookup_build_ref (basename f) (build_file_refs u fs)) = 1" if "f \<in> set fs" for f
    using lookup_build_ref_one [of "build_file_refs u fs" "basename f"]
      build_file_refs_lines [of _ u fs] build_file_refs_own_line [OF that, of u]
    by blast
  then show ?thesis
    by (simp add: new_files_list_def length_concat_singletons)
qed

lemma length_file_references: "length (file_references u fs) = length fs + 1"
  by (simp add: file_references_def length_swift_records)

section \<open>The two-file scenario\<close>

lemma scenario_files:
  "find_all_swift_files aiplugins_dir (Some two_files) = [''A.swift'', ''B.swift'']"
  by code_simp

lemma first_lines:
  "file_references sample_uuid4 [''A.swift'', ''B.swift''] = [ref1, ref2, ref3]"
  "build_file_refs sample_uuid4 [''A.swift'', ''B.swift''] = [build1, build2, build3]"
  "list_entry (wm_uuid sample_uuid4) ''AIPluginWindowManager.swift'' = NL # child1"
  "new_files_list sample_uuid4 [''A.swift'', ''B.swift''] = [NL # file1, NL # file2, NL # file3]"
  by code_simp+

lemma second_lines:
  "file_references later_uuid4 [''A.swift'', ''B.swift''] = [ref4, ref5, ref6]"
  "build_file_refs later_uuid4 [''A.swift'', ''B.swift''] = [build4, build5, build6]"
  "list_entry (wm_uuid later_uuid4) ''AIPluginWindowManager.swift'' = NL # child2"
  "new_files_list later_uuid4 [''A.swift'', ''B.swift''] = [NL # file4, NL # file5, NL # file6]"
  by code_simp+

lemma nl_free:
  "NL \<notin> set begin_file_references" "NL \<notin> set end_file_references"
  "NL \<notin> set begin_build_files" "NL \<notin> set end_build_files"
  "NL \<notin> set sources_group" "NL \<notin> set children_open" "NL \<notin> set list_close"
  "NL \<notin> set sources_phase" "NL \<notin> set files_open"
  "NL \<notin> set five_tabs" "NL \<notin> set four_spaces"
  by code_simp+

lemma non_empty:
  "end_file_references \<noteq> []" "end_build_files \<noteq> []" "five_tabs \<noteq> []" "four_spaces \<noteq> []"
  by code_simp+

lemmas layout_simps =
  unambiguous_def clear_file_refs_def clear_build_files_def clear_children_def clear_files_def
  add_file_refs_def add_build_files_def add_child_def add_files_def
  before_file_refs_def before_group_def before_children_def before_phase_def before_files_def
  after_build_files_def after_file_refs_def after_children_def
  section_addition_def non_empty

lemmas break_simps =
  str_in_break str_in_break_first str_in_headed_break str_in_headed_first
  startswith_break startswith_break_first str_in_group startswith_group nl_free non_empty
  de_Morgan_disj simp_thms

lemma first_run_clear: "unambiguous sample_uuid4 [''A.swift'', ''B.swift''] empty_layout"
  apply (simp add: layout_simps empty_layout_def first_lines)
  apply (simp only: break_simps)
  apply code_simp
  done

lemma clear_children_stem:
  assumes "children L = G @ X"
    "\<not> str_in sources_group (before_group L @ butlast sources_group)"
    "\<not> str_in children_open (group_head L @ butlast children_open)"
    "\<not> str_in list_close (children L @ butlast list_close)"
    "\<not> str_in G (before_children L @ butlast G)"
    "\<not> str_in G (list_close @ after_children L)"
  shows "clear_children L"
  using assms not_str_in_stem [of G "before_children L" X] str_in_prefix_pattern [of G X]
  by (auto simp: clear_children_def)

lemma clear_files_stem:
  assumes "files L = F @ X"
    "\<not> str_in sources_phase (before_phase L @ butlast sources_phase)"
    "\<not> str_in files_open (phase_head L @ butlast files_open)"
    "\<not> str_in list_close (files L @ butlast list_close)"
    "\<not> str_in F (before_files L @ butlast F)"
    "\<not> str_in F (list_close @ trailer L)"
  shows "clear_files L"
  using assms not_str_in_stem [of F "before_files L" X] str_in_prefix_pattern [of F X]
  by (auto simp: clear_files_def)

lemma first_run_layout:
  "after_run sample_uuid4 [''A.swift'', ''B.swift''] empty_layout = patched_layout"
  by (simp add: after_run_def add_file_refs_def add_build_files_def add_child_def add_files_def
        first_lines empty_layout_def patched_layout_def)

lemma patched_clear_file_refs: "clear_file_refs patched_layout"
  apply (simp add: layout_simps patched_layout_def)
  apply (simp only: break_simps)
  apply code_simp
  done




lemma second_run_clear:
  "unambiguous later_uuid4 [''A.swift'', ''B.swift''] patched_layout"
  unfolding unambiguous_def
proof (intro conjI)
  show "clear_file_refs patched_layout" by (rule patched_clear_file_refs)
  show "clear_build_files (add_file_refs later_uuid4 [''A.swift'', ''B.swift''] patched_layout)"
    apply (simp add: layout_simps patched_layout_def second_lines)
    apply (simp only: break_simps)
    apply code_simp
    done
  show "clear_children (add_build_files later_uuid4 [''A.swift'', ''B.swift'']
          (add_file_refs later_uuid4 [''A.swift'', ''B.swift''] patched_layout))"
    apply (rule clear_children_stem [where G = "NL # five_tabs" and X = "NL # child1"])
         apply (simp add: patched_layout_def add_build_files_def add_file_refs_def)
        apply (simp add: layout_simps patched_layout_def second_lines,
               (simp only: break_simps)?, code_simp)+
    done
  show "clear_files (add_child later_uuid4 (add_build_files later_uuid4 [''A.swift'', ''B.swift'']
          (add_file_refs later_uuid4 [''A.swift'', ''B.swift''] patched_layout)))"
    apply (rule clear_files_stem [where F = "NL # four_spaces"
          and X = "NL # file1 @ NL # file2 @ NL # file3"])
         apply (simp add: patched_layout_def add_build_files_def add_file_refs_def add_child_def)
        apply (simp add: layout_simps patched_layout_def second_lines,
               (simp only: break_simps)?, code_simp)+
    done
qed





lemma no_resources: "find_all_resource_files resources_dir (Some (Dir [])) = []"
  by code_simp


lemma written_unambiguous:
  assumes "pbxproj w = Some (render L)" "writable w"
    "unambiguous (uuid4 w) (find_all_swift_files aiplugins_dir (aiplugins_tree w)) L"
  shows "written (add_files_to_project w) =
           Some (render (after_run (uuid4 w)
                   (find_all_swift_files aiplugins_dir (aiplugins_tree w)) L))"
    and "console (add_files_to_project w) =
           [ReadingProject, ScanningSources,
            FoundSwiftFiles (length (find_all_swift_files aiplugins_dir (aiplugins_tree w))),
            ScanningResources,
            FoundResources (length (find_all_resource_files resources_dir (resources_tree w))),
            ModifyingProject, AddedFileReferences, AddedBuildReferences, AddedToSourcesGroup,
            AddedToBuildPhase, SavingProject, ProjectUpdated, Finished, StatisticsHeader,
            SourcesAdded (length (find_all_swift_files aiplugins_dir (aiplugins_tree w)) + 1),
            ResourcesAdded (length (find_all_resource_files resources_dir (resources_tree w)))]"
    and "raised (add_files_to_project w) = None"
  using assms(1,2) patch_all_unambiguous [OF assms(3)]
  by (simp_all add: add_files_to_project_def Let_def)









section \<open>A second run\<close>

text \<open>
  Claim C8: no step looks at what a region already holds. When a descriptor is
  unambiguous for a run and the patched descriptor is unambiguous for a second run over
  the same source files, the second run appends to each of the four regions again: the
  two sections each get as many new lines as the first run gave them (one more than
  there are source files), the group gets one more entry and the phase as many entries
  again, after what the first run appended.
\<close>

theorem rerun_appends_again:
  assumes "pbxproj w = Some (render L)" and "writable w"
    and "find_all_swift_files aiplugins_dir (aiplugins_tree w) = fs"
    and "unambiguous (uuid4 w) fs L"
    and "unambiguous u' fs (after_run (uuid4 w) fs L)"
  shows "written (add_files_to_project w) = Some (render (after_run (uuid4 w) fs L))
    \<and> written (add_files_to_project
                 (w\<lparr>pbxproj := written (add_files_to_project w), uuid4 := u'\<rparr>))
        = Some (render (after_run u' fs (after_run (uuid4 w) fs L)))
    \<and> file_refs (after_run u' fs (after_run (uuid4 w) fs L))
        = file_refs L @ section_addition (file_references (uuid4 w) fs)
            @ section_addition (file_references u' fs)
    \<and> build_files (after_run u' fs (after_run (uuid4 w) fs L))
        = build_files L @ section_addition (build_file_refs (uuid4 w) fs)
            @ section_addition (build_file_refs u' fs)
    \<and> children (after_run u' fs (after_run (uuid4 w) fs L))
        = children L @ list_entry (wm_uuid (uuid4 w)) ''AIPluginWindowManager.swift''
            @ list_entry (wm_uuid u') ''AIPluginWindowManager.swift''
    \<and> files (after_run u' fs (after_run (uuid4 w) fs L))
        = files L @ concat (new_files_list (uuid4 w) fs) @ concat (new_files_list u' fs)
    \<and> length (file_references (uuid4 w) fs) = length fs + 1
    \<and> length (file_references u' fs) = length fs + 1
    \<and> length (build_file_refs (uuid4 w) fs) = length fs + 1
    \<and> length (build_file_refs u' fs) = length fs + 1
    \<and> length (new_files_list (uuid4 w) fs) = length fs + 1
    \<and> length (new_files_list u' fs) = length fs + 1"
proof -
  have 1: "written (add_files_to_project w) = Some (render (after_run (uuid4 w) fs L))"
    using written_unambiguous(1) [of w L] assms by simp
  let ?w' = "w\<lparr>pbxproj := written (add_files_to_project w), uuid4 := u'\<rparr>"
  have "written (add_files_to_project ?w') =
          Some (render (after_run (uuid4 ?w')
                  (find_all_swift_files aiplugins_dir (aiplugins_tree ?w'))
                  (after_run (uuid4 w) fs L)))"
    by (rule written_unambiguous(1)) (use assms 1 in simp_all)
  then have 2: "written (add_files_to_project ?w')
                  = Some (render (after_run u' fs (after_run (uuid4 w) fs L)))"
    using assms(3) by simp
  show ?thesis
    using 1 2
    by (simp add: after_run_def add_file_refs_def add_build_files_def add_child_def
          add_files_def length_new_files_list file_references_def build_file_refs_def
          length_swift_records)
qed

text \<open>
  Claim C8: the scenario run twice. The second run finds three file-reference lines,
  three build-file lines, one child and three phase entries, and leaves six, six, two
  and six.
\<close>

theorem rerun_appends_again_witness:
  "pbxproj two_file_world = Some (render empty_layout) \<and> writable two_file_world
   \<and> find_all_swift_files aiplugins_dir (aiplugins_tree two_file_world)
       = [''A.swift'', ''B.swift'']
   \<and> unambiguous (uuid4 two_file_world) [''A.swift'', ''B.swift''] empty_layout
   \<and> unambiguous later_uuid4 [''A.swift'', ''B.swift'']
       (after_run (uuid4 two_file_world) [''A.swift'', ''B.swift''] empty_layout)
   \<and> written (add_files_to_project two_file_world) = Some (render patched_layout)
   \<and> written (add_files_to_project
                (two_file_world\<lparr>pbxproj := written (add_files_to_project two_file_world),
                                 uuid4 := later_uuid4\<rparr>))
       = Some (render (after_run later_uuid4 [''A.swift'', ''B.swift''] patched_layout))
   \<and> file_refs (after_run later_uuid4 [''A.swift'', ''B.swift''] patched_layout)
       = section_addition [ref1, ref2, ref3] @ section_addition [ref4, ref5, ref6]
   \<and> build_files (after_run later_uuid4 [''A.swift'', ''B.swift''] patched_layout)
       = section_addition [build1, build2, build3] @ section_addition [build4, build5, build6]
   \<and> children (after_run later_uuid4 [''A.swift'', ''B.swift''] patched_layout)
       = NL # five_tabs @ NL # child1 @ NL # child2
   \<and> files (after_run later_uuid4 [''A.swift'', ''B.swift''] patched_layout)
       = NL # four_spaces @ NL # file1 @ NL # file2 @ NL # file3
           @ NL # file4 @ NL # file5 @ NL # file6"
proof -
  have h1: "pbxproj two_file_world = Some (render empty_layout)"
    and h2: "writable two_file_world"
    and h3: "find_all_swift_files aiplugins_dir (aiplugins_tree two_file_world)
               = [''A.swift'', ''B.swift'']"
    and h4: "unambiguous (uuid4 two_file_world) [''A.swift'', ''B.swift''] empty_layout"
    and h5: "unambiguous later_uuid4 [''A.swift'', ''B.swift'']
               (after_run (uuid4 two_file_world) [''A.swift'', ''B.swift''] empty_layout)"
    by (simp_all add: two_file_world_def scenario_files first_run_clear first_run_layout
          second_run_clear)
  have u: "uuid4 two_file_world = sample_uuid4" by (simp add: two_file_world_def)
  note t = rerun_appends_again [OF h1 h2 h3 h4 h5, unfolded u first_run_layout]
  from t have a: "written (add_files_to_project two_file_world) = Some (render patched_layout)"
    by (rule conjunct1)
  from t have b: "written (add_files_to_project
                     (two_file_world\<lparr>pbxproj := written (add_files_to_project two_file_world),
                                      uuid4 := later_uuid4\<rparr>))
       = Some (render (after_run later_uuid4 [''A.swift'', ''B.swift''] patched_layout))"
    by (rule conjunct1 [OF conjunct2])
  have f1: "file_refs (after_run later_uuid4 [''A.swift'', ''B.swift''] patched_layout)
       = section_addition [ref1, ref2, ref3] @ section_addition [ref4, ref5, ref6]"
    and f2: "build_files (after_run later_uuid4 [''A.swift'', ''B.swift''] patched_layout)
       = section_addition [build1, build2, build3] @ section_addition [build4, build5, build6]"
    and f3: "children (after_run later_uuid4 [''A.swift'', ''B.swift''] patched_layout)
       = NL # five_tabs @ NL # child1 @ NL # child2"
    and f4: "files (after_run later_uuid4 [''A.swift'', ''B.swift''] patched_layout)
       = NL # four_spaces @ NL # file1 @ NL # file2 @ NL # file3
           @ NL # file4 @ NL # file5 @ NL # file6"
    by (simp_all add: after_run_def add_file_refs_def add_build_files_def add_child_def
          add_files_def second_lines patched_layout_def)
  show ?thesis
    by (intro conjI h1 h2 h3 h4 h5 a b f1 f2 f3 f4)
qed

end
